theory Spec2Isabelle
  imports Complex_Main
begin

section \<open>Values and objects of the host language\<close>

text \<open>
  The library is generic in \<open>Locale extends string\<close>: at run time a locale is a string,
  and nothing in the library restricts which one.
\<close>

type_synonym Locale = string

text \<open>
  The values of the host language. The library computes with none of them: it tests one
  for truthiness, reads a property of it, and hands the result on. Objects, functions
  among them, are values by reference.
\<close>

datatype js_number = NaN | PosInfinity | NegInfinity | Finite real

datatype js_value =
    Undefined | Null | Boolean bool | Number js_number | BigInt int | Str string
  | Symbol nat | Ref nat

text \<open>
  What can be raised. The source contains no \<open>throw\<close>. The engine raises a
  \<open>TypeError\<close> when a property of \<open>undefined\<close> or \<open>null\<close> is read
  (\<open>ReadOfNullish\<close>); a getter can raise any value (\<open>Thrown\<close>); the UI framework
  raises when a hook is called while no component renders (\<open>InvalidHookCall\<close>).
\<close>

datatype js_error = ReadOfNullish | Thrown js_value | InvalidHookCall

text \<open>
  A property holds a value, or it is an accessor whose getter is host code: run in the
  program state \<open>'\<sigma>\<close>, it returns a value or raises, and may change the state. An
  object has its own properties and, unless it ends the chain, a prototype.
\<close>

datatype '\<sigma> js_prop = Data js_value | Accessor "'\<sigma> \<Rightarrow> (js_error + js_value) \<times> '\<sigma>"

datatype '\<sigma> js_object = Obj (own: "string \<rightharpoonup> '\<sigma> js_prop") (proto: "'\<sigma> js_object option")

text \<open>
  What a value stands for when a property of it is read: the object behind a reference,
  the wrapper object of a primitive. It is not asked about \<open>undefined\<close> and \<open>null\<close>.
\<close>

type_synonym '\<sigma> host = "js_value \<Rightarrow> '\<sigma> js_object"

text \<open>The property a name resolves to: the object's own, else its prototype's, and so on.\<close>

fun find_prop :: "'\<sigma> js_object \<Rightarrow> string \<Rightarrow> '\<sigma> js_prop option" where
  "find_prop (Obj props parent) k =
     (case props k of
        Some p \<Rightarrow> Some p
      | None \<Rightarrow> (case parent of None \<Rightarrow> None | Some obj \<Rightarrow> find_prop obj k))"

text \<open>
  \<open>obj[k]\<close> on an object: \<open>undefined\<close> when the name resolves to nothing, the value of
  a data property, the outcome of the getter of an accessor.
\<close>

definition property_get ::
    "'\<sigma> js_object \<Rightarrow> string \<Rightarrow> '\<sigma> \<Rightarrow> (js_error + js_value) \<times> '\<sigma>" where
  "property_get obj k \<sigma> =
     (case find_prop obj k of
        None \<Rightarrow> (Inr Undefined, \<sigma>)
      | Some (Data v) \<Rightarrow> (Inr v, \<sigma>)
      | Some (Accessor getter) \<Rightarrow> getter \<sigma>)"

text \<open>\<open>!v\<close>: the values that convert to \<open>false\<close>.\<close>

fun falsy :: "js_value \<Rightarrow> bool" where
  "falsy Undefined = True"
| "falsy Null = True"
| "falsy (Boolean b) = (\<not> b)"
| "falsy (Number n) = (n = NaN \<or> n = Finite 0)"
| "falsy (BigInt i) = (i = 0)"
| "falsy (Str s) = (s = [])"
| "falsy (Symbol _) = False"
| "falsy (Ref _) = False"

text \<open>\<open>v[k]\<close> on a value.\<close>

definition member_read ::
    "'\<sigma> host \<Rightarrow> js_value \<Rightarrow> string \<Rightarrow> '\<sigma> \<Rightarrow> (js_error + js_value) \<times> '\<sigma>" where
  "member_read h v k \<sigma> =
     (if v = Undefined \<or> v = Null then (Inl ReadOfNullish, \<sigma>)
      else property_get (h v) k \<sigma>)"

section \<open>The lookup\<close>

text \<open>
  The one-argument variant. \<open>translate\<close> is a closure inside \<open>useTranslations\<close>: it
  captures the table, which is an object, and the \<open>locale\<close> that the hook read, and
  takes the key.
  \<^verbatim>\<open>
      function translate(key) {
        const translation = translations[key];
        if (!translation) { return ""; }
        return translation[locale];
      }
  \<close>
\<close>

definition translate ::
    "'\<sigma> host \<Rightarrow> '\<sigma> js_object \<Rightarrow> Locale \<Rightarrow> string \<Rightarrow> '\<sigma>
       \<Rightarrow> (js_error + js_value) \<times> '\<sigma>" where
  "translate h translations locale key \<sigma> =
     (case property_get translations key \<sigma> of
        (Inl e, \<sigma>') \<Rightarrow> (Inl e, \<sigma>')
      | (Inr translation, \<sigma>') \<Rightarrow>
          if falsy translation then (Inr (Str []), \<sigma>')
          else member_read h translation locale \<sigma>')"

text \<open>
  The two-argument variant: the closure captures the table only, and the caller passes
  the language.
  \<^verbatim>\<open>
      function translate(key, language) {
        const translation = translations[key];
        if (!translation) { return ""; }
        return translation[language];
      }
  \<close>
\<close>

definition translate_000 ::
    "'\<sigma> host \<Rightarrow> '\<sigma> js_object \<Rightarrow> string \<Rightarrow> Locale \<Rightarrow> '\<sigma>
       \<Rightarrow> (js_error + js_value) \<times> '\<sigma>" where
  "translate_000 h translations key language \<sigma> =
     (case property_get translations key \<sigma> of
        (Inl e, \<sigma>') \<Rightarrow> (Inl e, \<sigma>')
      | (Inr translation, \<sigma>') \<Rightarrow>
          if falsy translation then (Inr (Str []), \<sigma>')
          else member_read h translation language \<sigma>')"

definition useTranslations_000 ::
    "'\<sigma> host \<Rightarrow> '\<sigma> js_object \<Rightarrow> string \<Rightarrow> Locale \<Rightarrow> '\<sigma>
       \<Rightarrow> (js_error + js_value) \<times> '\<sigma>" where
  "useTranslations_000 h translations = translate_000 h translations"

section \<open>The host framework: state cells, memo slots and context\<close>

text \<open>
  The library stores nothing itself. Its state lives in the hooks of the UI framework,
  whose documented behaviour is written out here so that it can be reasoned about.

  \<^item> A setter is a function value. The library meets two of them: the \<open>() => { }\<close> of
    the context's default value, and the setter that \<open>useState\<close> hands to one mounted
    Provider instance, which is bound to that instance's state cell.
  \<^item> A setter takes a \<open>SetStateAction<Locale>\<close>: a value, or a function from the
    previous state to the next.
  \<^item> Calling a setter enqueues the action on its cell. The next render of the component
    applies the queue in order; until then readers still see the old state.
\<close>

datatype setter = Noop | Dispatch nat

datatype action = Value Locale | Updater "Locale \<Rightarrow> Locale"

fun apply_action :: "action \<Rightarrow> Locale \<Rightarrow> Locale" where
  "apply_action (Value v) prev = v"
| "apply_action (Updater f) prev = f prev"

text \<open>The object that travels through the context: \<open>{ locale, setLocale }\<close>.\<close>

record ctx_value =
  ctx_locale :: Locale
  ctx_setLocale :: setter

text \<open>
  What the functions created by one call of \<open>createTranslations\<close> close over: the
  context object that \<open>createContext\<close> returned (by identity) and \<open>initialLocale\<close>.
\<close>

record closure =
  context_id :: nat
  initialLocale :: Locale

text \<open>
  The hook slots of one mounted \<open>LocaleProvider\<close>: the \<open>useState\<close> cell with its
  pending updates, and the \<open>useMemo\<close> slot with the dependencies it was computed for.
\<close>

record provider =
  component :: closure
  hook_state :: Locale
  hook_queue :: "action list"
  memo_deps :: Locale
  memo_value :: ctx_value

text \<open>The mounted Provider instances, by instance identity.\<close>

type_synonym world = "nat \<rightharpoonup> provider"

text \<open>
  \<open>useState(initial)\<close> in instance \<open>pid\<close>. On the first render (\<open>prev = None\<close>) the
  state is \<open>initial\<close>; on a later render \<open>initial\<close> is ignored and the pending updates
  are applied to the stored state. The setter is the same on every render.
\<close>

definition useState :: "Locale \<Rightarrow> nat \<Rightarrow> provider option \<Rightarrow> Locale \<times> setter" where
  "useState initial pid prev =
     (case prev of
        None \<Rightarrow> (initial, Dispatch pid)
      | Some inst \<Rightarrow>
          (foldl (\<lambda>s a. apply_action a s) (hook_state inst) (hook_queue inst), Dispatch pid))"

text \<open>
  \<open>useMemo(() => computed, [d])\<close>: the stored value is reused while the dependency is
  the one it was computed for.
\<close>

definition useMemo :: "ctx_value \<Rightarrow> Locale \<Rightarrow> provider option \<Rightarrow> ctx_value" where
  "useMemo computed d prev =
     (case prev of
        None \<Rightarrow> computed
      | Some inst \<Rightarrow> if memo_deps inst = d then memo_value inst else computed)"

section \<open>The factory and what it returns\<close>

definition createTranslations :: "nat \<Rightarrow> Locale \<Rightarrow> closure" where
  "createTranslations fresh initial = \<lparr>context_id = fresh, initialLocale = initial\<rparr>"

text \<open>
  The default value given to \<open>createContext\<close>:
  \<^verbatim>\<open>{ locale: initialLocale, setLocale: () => { } }\<close>
\<close>

definition LocaleContext :: "closure \<Rightarrow> ctx_value" where
  "LocaleContext c = \<lparr>ctx_locale = initialLocale c, ctx_setLocale = Noop\<rparr>"

text \<open>
  One render of the Provider component, as instance \<open>pid\<close> with the hook slots \<open>prev\<close>
  of its previous render. The result holds the slots after the render; its
  \<open>memo_value\<close> is the \<open>value\<close> handed to \<open>LocaleContext.Provider\<close>.
  \<^verbatim>\<open>
      const [locale, setLocale] = useState<Locale>(initialLocale);
      const value = useMemo(() => { return { locale, setLocale }; }, [locale]);
      return <LocaleContext.Provider value={value}>{children}</LocaleContext.Provider>
  \<close>
\<close>

definition LocaleProvider :: "closure \<Rightarrow> nat \<Rightarrow> provider option \<Rightarrow> provider" where
  "LocaleProvider c pid prev =
     (let (locale, setLocale) = useState (initialLocale c) pid prev;
          value = useMemo \<lparr>ctx_locale = locale, ctx_setLocale = setLocale\<rparr> locale prev
      in \<lparr>component = c, hook_state = locale, hook_queue = [],
          memo_deps = locale, memo_value = value\<rparr>)"

text \<open>
  \<open>useContext(LocaleContext)\<close> in a component whose enclosing Provider instances are
  \<open>env\<close>, innermost first: the value of the nearest mounted Provider of this very
  context, or the context's default value when there is none.
\<close>

fun useContext :: "closure \<Rightarrow> world \<Rightarrow> nat list \<Rightarrow> ctx_value" where
  "useContext c w [] = LocaleContext c"
| "useContext c w (pid # outer) =
     (case w pid of
        None \<Rightarrow> useContext c w outer
      | Some inst \<Rightarrow>
          if context_id (component inst) = context_id c then memo_value inst
          else useContext c w outer)"

text \<open>
  \<^verbatim>\<open>
      const { locale, setLocale } = useContext(LocaleContext);
      return { locale, setLocale }
  \<close>
\<close>

definition useLocale :: "closure \<Rightarrow> world \<Rightarrow> nat list \<Rightarrow> ctx_value" where
  "useLocale c w env =
     (let v = useContext c w env
      in \<lparr>ctx_locale = ctx_locale v, ctx_setLocale = ctx_setLocale v\<rparr>)"

text \<open>
  \<^verbatim>\<open>
      const { locale } = useLocale();
      function translate(key) { ... }
      return { translate }
  \<close>
\<close>

definition useTranslations ::
    "'\<sigma> host \<Rightarrow> closure \<Rightarrow> world \<Rightarrow> nat list \<Rightarrow> '\<sigma> js_object \<Rightarrow> string \<Rightarrow> '\<sigma>
       \<Rightarrow> (js_error + js_value) \<times> '\<sigma>" where
  "useTranslations h c w env translations =
     (let locale = ctx_locale (useLocale c w env)
      in translate h translations locale)"

text \<open>
  The framework lets a hook run only while a component renders; called at any other
  time, a hook raises. \<open>LocaleProvider\<close>, \<open>useLocale\<close> and the one-argument
  \<open>useTranslations\<close> call hooks, so this holds for them too. While a component
  renders, its enclosing Providers are known.
\<close>

datatype phase = Idle | Rendering "nat list"

definition during_render :: "phase \<Rightarrow> (nat list \<Rightarrow> 'a) \<Rightarrow> js_error + 'a" where
  "during_render ph body =
     (case ph of
        Idle \<Rightarrow> Inl InvalidHookCall
      | Rendering env \<Rightarrow> Inr (body env))"

definition call_LocaleProvider ::
    "closure \<Rightarrow> nat \<Rightarrow> provider option \<Rightarrow> phase \<Rightarrow> js_error + provider" where
  "call_LocaleProvider c pid prev ph = during_render ph (\<lambda>env. LocaleProvider c pid prev)"

definition call_useLocale :: "closure \<Rightarrow> world \<Rightarrow> phase \<Rightarrow> js_error + ctx_value" where
  "call_useLocale c w ph = during_render ph (useLocale c w)"

definition call_useTranslations ::
    "'\<sigma> host \<Rightarrow> closure \<Rightarrow> world \<Rightarrow> phase \<Rightarrow> '\<sigma> js_object
       \<Rightarrow> js_error + (string \<Rightarrow> '\<sigma> \<Rightarrow> (js_error + js_value) \<times> '\<sigma>)" where
  "call_useTranslations h c w ph translations =
     during_render ph (\<lambda>env. useTranslations h c w env translations)"

section \<open>What happens to the mounted Providers\<close>

text \<open>Mounting renders the component for the first time, in a fresh instance.\<close>

definition mount :: "closure \<Rightarrow> nat \<Rightarrow> world \<Rightarrow> world" where
  "mount c pid w =
     (case w pid of
        None \<Rightarrow> w(pid \<mapsto> LocaleProvider c pid None)
      | Some _ \<Rightarrow> w)"

text \<open>
  Calling a setter. The default setter has an empty body. A Provider's setter enqueues
  the action on its own cell; on an instance that is no longer mounted it does nothing.
\<close>

definition call_setter :: "setter \<Rightarrow> action \<Rightarrow> world \<Rightarrow> world" where
  "call_setter s a w =
     (case s of
        Noop \<Rightarrow> w
      | Dispatch pid \<Rightarrow>
          (case w pid of
             None \<Rightarrow> w
           | Some inst \<Rightarrow> w(pid \<mapsto> inst\<lparr>hook_queue := hook_queue inst @ [a]\<rparr>)))"

text \<open>One propagation cycle: every mounted Provider is rendered again.\<close>

definition propagate :: "world \<Rightarrow> world" where
  "propagate w =
     (\<lambda>pid. case w pid of
              None \<Rightarrow> None
            | Some inst \<Rightarrow> Some (LocaleProvider (component inst) pid (Some inst)))"

text \<open>The histories of a running application, and the world each of them leads to.\<close>

datatype event = Mount closure nat | Call setter action | Propagate

fun step :: "world \<Rightarrow> event \<Rightarrow> world" where
  "step w (Mount c pid) = mount c pid w"
| "step w (Call s a) = call_setter s a w"
| "step w Propagate = propagate w"

definition run :: "event list \<Rightarrow> world" where
  "run evs = foldl step Map.empty evs"

text \<open>
  What every render establishes in an instance: the memo slot holds the value for the
  current state, with the instance's own setter.
\<close>

definition wf_provider :: "nat \<Rightarrow> provider \<Rightarrow> bool" where
  "wf_provider pid inst =
     (memo_deps inst = hook_state inst \<and>
      memo_value inst = \<lparr>ctx_locale = hook_state inst, ctx_setLocale = Dispatch pid\<rparr>)"

definition wf_world :: "world \<Rightarrow> bool" where
  "wf_world w = (\<forall>pid inst. w pid = Some inst \<longrightarrow> wf_provider pid inst)"

text \<open>The nearest mounted Provider of the closure's context among \<open>env\<close>, if any.\<close>

fun nearest :: "closure \<Rightarrow> world \<Rightarrow> nat list \<Rightarrow> nat option" where
  "nearest c w [] = None"
| "nearest c w (pid # outer) =
     (case w pid of
        None \<Rightarrow> nearest c w outer
      | Some inst \<Rightarrow>
          if context_id (component inst) = context_id c then Some pid
          else nearest c w outer)"

section \<open>Which reads reach host code\<close>

text \<open>
  \<open>translate\<close> reads two properties. Neither read reaches a getter when the key
  resolves to nothing or to a data property, and, where the value found is truthy, the
  locale resolves on it to nothing or to a data property.
\<close>

definition no_getter :: "'\<sigma> js_prop option \<Rightarrow> bool" where
  "no_getter p = (case p of None \<Rightarrow> True | Some (Data _) \<Rightarrow> True | Some (Accessor _) \<Rightarrow> False)"

definition reads_no_getter :: "'\<sigma> host \<Rightarrow> '\<sigma> js_object \<Rightarrow> Locale \<Rightarrow> string \<Rightarrow> bool" where
  "reads_no_getter h translations locale key =
     (case find_prop translations key of
        None \<Rightarrow> True
      | Some (Data v) \<Rightarrow> falsy v \<or> no_getter (find_prop (h v) locale)
      | Some (Accessor _) \<Rightarrow> False)"

text \<open>
  The exception \<open>e\<close> is what a getter raised: the getter that the key resolves to on
  the table, or the getter that the locale resolves to on the truthy value found under
  the key.
\<close>

definition getter_raises :: "'\<sigma> js_prop option \<Rightarrow> '\<sigma> \<Rightarrow> js_error \<Rightarrow> bool" where
  "getter_raises p \<sigma> e =
     (case p of
        None \<Rightarrow> False
      | Some (Data _) \<Rightarrow> False
      | Some (Accessor getter) \<Rightarrow> fst (getter \<sigma>) = Inl e)"

definition raised_by_getter ::
    "'\<sigma> host \<Rightarrow> '\<sigma> js_object \<Rightarrow> Locale \<Rightarrow> string \<Rightarrow> '\<sigma> \<Rightarrow> js_error \<Rightarrow> bool" where
  "raised_by_getter h translations locale key \<sigma> e =
     (getter_raises (find_prop translations key) \<sigma> e \<or>
      (case property_get translations key \<sigma> of
         (Inl _, _) \<Rightarrow> False
       | (Inr v, \<sigma>') \<Rightarrow> \<not> falsy v \<and> getter_raises (find_prop (h v) locale) \<sigma>' e))"

section \<open>The built-in objects that the examples meet\<close>

text \<open>
  The standard objects of the host language (ECMA-262, 2024 edition) that a property
  read on an object literal or on a built-in function can reach, with their
  string-named members. A member that is a function is a reference.

  \<open>Object.prototype\<close> lives at address 1, \<open>Function.prototype\<close> at 2, the constructors
  \<open>Object\<close> and \<open>Function\<close> at 3 and 4, the \<open>TypeError\<close> that a restricted accessor
  raises at 9, the methods of \<open>Object.prototype\<close> at 10 to 19, those of
  \<open>Function.prototype\<close> at 20 to 23, and the static methods of \<open>Object\<close> from 30 on.
\<close>

text \<open>
  \<open>Object.prototype\<close>, as the end of the chain of a receiver whose prototype is
  \<open>receiver_proto\<close>: that is what the getter of \<open>__proto__\<close> returns.
\<close>

definition Object_prototype :: "js_value \<Rightarrow> '\<sigma> js_object" where
  "Object_prototype receiver_proto =
     Obj [''constructor'' \<mapsto> Data (Ref 3),
          ''hasOwnProperty'' \<mapsto> Data (Ref 10),
          ''isPrototypeOf'' \<mapsto> Data (Ref 11),
          ''propertyIsEnumerable'' \<mapsto> Data (Ref 12),
          ''toLocaleString'' \<mapsto> Data (Ref 13),
          ''toString'' \<mapsto> Data (Ref 14),
          ''valueOf'' \<mapsto> Data (Ref 15),
          ''__defineGetter__'' \<mapsto> Data (Ref 16),
          ''__defineSetter__'' \<mapsto> Data (Ref 17),
          ''__lookupGetter__'' \<mapsto> Data (Ref 18),
          ''__lookupSetter__'' \<mapsto> Data (Ref 19),
          ''__proto__'' \<mapsto> Accessor (\<lambda>\<sigma>. (Inr receiver_proto, \<sigma>))]
         None"

text \<open>
  \<open>Function.prototype\<close>, likewise as part of a receiver's chain. Its \<open>caller\<close> and
  \<open>arguments\<close> are accessors whose getter always raises a \<open>TypeError\<close>.
\<close>

definition Function_prototype :: "js_value \<Rightarrow> '\<sigma> js_object" where
  "Function_prototype receiver_proto =
     Obj [''length'' \<mapsto> Data (Number (Finite 0)),
          ''name'' \<mapsto> Data (Str []),
          ''constructor'' \<mapsto> Data (Ref 4),
          ''apply'' \<mapsto> Data (Ref 20),
          ''bind'' \<mapsto> Data (Ref 21),
          ''call'' \<mapsto> Data (Ref 22),
          ''toString'' \<mapsto> Data (Ref 23),
          ''caller'' \<mapsto> Accessor (\<lambda>\<sigma>. (Inl (Thrown (Ref 9)), \<sigma>)),
          ''arguments'' \<mapsto> Accessor (\<lambda>\<sigma>. (Inl (Thrown (Ref 9)), \<sigma>))]
         (Some (Object_prototype receiver_proto))"

text \<open>A built-in function: its own \<open>length\<close> and \<open>name\<close>, then \<open>Function.prototype\<close>.\<close>

definition function_object :: "string \<Rightarrow> real \<Rightarrow> '\<sigma> js_object" where
  "function_object name arity =
     Obj [''length'' \<mapsto> Data (Number (Finite arity)), ''name'' \<mapsto> Data (Str name)]
         (Some (Function_prototype (Ref 2)))"

definition builtin_methods :: "nat \<rightharpoonup> string \<times> real" where
  "builtin_methods =
     [10 \<mapsto> (''hasOwnProperty'', 1), 11 \<mapsto> (''isPrototypeOf'', 1),
      12 \<mapsto> (''propertyIsEnumerable'', 1), 13 \<mapsto> (''toLocaleString'', 0),
      14 \<mapsto> (''toString'', 0), 15 \<mapsto> (''valueOf'', 0),
      16 \<mapsto> (''__defineGetter__'', 2), 17 \<mapsto> (''__defineSetter__'', 2),
      18 \<mapsto> (''__lookupGetter__'', 1), 19 \<mapsto> (''__lookupSetter__'', 1),
      20 \<mapsto> (''apply'', 2), 21 \<mapsto> (''bind'', 1), 22 \<mapsto> (''call'', 1),
      23 \<mapsto> (''toString'', 0)]"

text \<open>The constructors \<open>Object\<close>, with its static methods, and \<open>Function\<close>.\<close>

definition Object_constructor :: "'\<sigma> js_object" where
  "Object_constructor =
     Obj [''length'' \<mapsto> Data (Number (Finite 1)),
          ''name'' \<mapsto> Data (Str ''Object''),
          ''prototype'' \<mapsto> Data (Ref 1),
          ''assign'' \<mapsto> Data (Ref 30),
          ''create'' \<mapsto> Data (Ref 31),
          ''defineProperties'' \<mapsto> Data (Ref 32),
          ''defineProperty'' \<mapsto> Data (Ref 33),
          ''entries'' \<mapsto> Data (Ref 34),
          ''freeze'' \<mapsto> Data (Ref 35),
          ''fromEntries'' \<mapsto> Data (Ref 36),
          ''getOwnPropertyDescriptor'' \<mapsto> Data (Ref 37),
          ''getOwnPropertyDescriptors'' \<mapsto> Data (Ref 38),
          ''getOwnPropertyNames'' \<mapsto> Data (Ref 39),
          ''getOwnPropertySymbols'' \<mapsto> Data (Ref 40),
          ''getPrototypeOf'' \<mapsto> Data (Ref 41),
          ''groupBy'' \<mapsto> Data (Ref 42),
          ''hasOwn'' \<mapsto> Data (Ref 43),
          ''is'' \<mapsto> Data (Ref 44),
          ''isExtensible'' \<mapsto> Data (Ref 45),
          ''isFrozen'' \<mapsto> Data (Ref 46),
          ''isSealed'' \<mapsto> Data (Ref 47),
          ''keys'' \<mapsto> Data (Ref 48),
          ''preventExtensions'' \<mapsto> Data (Ref 49),
          ''seal'' \<mapsto> Data (Ref 50),
          ''setPrototypeOf'' \<mapsto> Data (Ref 51),
          ''values'' \<mapsto> Data (Ref 52)]
         (Some (Function_prototype (Ref 2)))"

definition Function_constructor :: "'\<sigma> js_object" where
  "Function_constructor =
     Obj [''length'' \<mapsto> Data (Number (Finite 1)),
          ''name'' \<mapsto> Data (Str ''Function''),
          ''prototype'' \<mapsto> Data (Ref 2)]
         (Some (Function_prototype (Ref 2)))"

text \<open>An object literal \<open>{ k: v, ... }\<close>: data properties, then \<open>Object.prototype\<close>.\<close>

definition object_literal :: "(string \<rightharpoonup> js_value) \<Rightarrow> '\<sigma> js_object" where
  "object_literal entries =
     Obj (\<lambda>k. map_option Data (entries k)) (Some (Object_prototype (Ref 1)))"

text \<open>
  The objects of the examples: the built-in ones, and at 100, 101 and 102 the inner
  mappings \<open>{fr: "Bonjour", en: "Hello", es: "Hola"}\<close>, \<open>{fr: "Bonjour", en: "Hello"}\<close>
  and \<open>{fr: "Salut", en: "Hi"}\<close>. What the examples cannot reach (the wrappers of
  primitives, the objects at other addresses) is left without properties.
\<close>

definition example_host :: "'\<sigma> host" where
  "example_host v =
     (case v of
        Ref n \<Rightarrow>
          if n = 1 then Object_prototype Null
          else if n = 2 then Function_prototype (Ref 1)
          else if n = 3 then Object_constructor
          else if n = 4 then Function_constructor
          else if n = 100 then
            object_literal
              [''fr'' \<mapsto> Str ''Bonjour'', ''en'' \<mapsto> Str ''Hello'', ''es'' \<mapsto> Str ''Hola'']
          else if n = 101 then
            object_literal [''fr'' \<mapsto> Str ''Bonjour'', ''en'' \<mapsto> Str ''Hello'']
          else if n = 102 then
            object_literal [''fr'' \<mapsto> Str ''Salut'', ''en'' \<mapsto> Str ''Hi'']
          else (case builtin_methods n of
                  Some (name, arity) \<Rightarrow> function_object name arity
                | None \<Rightarrow> Obj Map.empty None)
      | _ \<Rightarrow> Obj Map.empty None)"

text \<open>The tables \<open>{title: {fr, en, es}}\<close> and \<open>{title: {fr, en}}\<close>.\<close>

definition table_full :: "'\<sigma> js_object" where
  "table_full = object_literal [''title'' \<mapsto> Ref 100]"

definition table_partial :: "'\<sigma> js_object" where
  "table_partial = object_literal [''title'' \<mapsto> Ref 101]"

text \<open>
  A table whose entry is a getter that counts its calls in the program state and
  answers with one mapping on odd counts and with another on even ones:
  \<^verbatim>\<open>
      let n = 0;
      const table = { get title() { n++; return n % 2 ? {fr: "Bonjour", en: "Hello"}
                                                      : {fr: "Salut", en: "Hi"}; } };
  \<close>
\<close>

definition table_getter :: "nat js_object" where
  "table_getter =
     Obj [''title'' \<mapsto> Accessor (\<lambda>n. (Inr (Ref (if odd (Suc n) then 101 else 102)), Suc n))]
         (Some (Object_prototype (Ref 1)))"

section \<open>Facts about the lookup\<close>

lemma find_prop_own: "own obj k = Some p \<Longrightarrow> find_prop obj k = Some p"
  by (cases obj) simp

lemma translate_falsy:
  "property_get translations key \<sigma> = (Inr v, \<sigma>') \<Longrightarrow> falsy v \<Longrightarrow>
   translate h translations locale key \<sigma> = (Inr (Str []), \<sigma>')"
  by (simp add: translate_def)

text \<open>The guard does its work: what passes it is neither \<open>undefined\<close> nor \<open>null\<close>.\<close>

lemma translate_truthy:
  "property_get translations key \<sigma> = (Inr v, \<sigma>') \<Longrightarrow> \<not> falsy v \<Longrightarrow>
   translate h translations locale key \<sigma> = property_get (h v) locale \<sigma>'"
  by (cases v) (simp_all add: translate_def member_read_def)

lemma translate_unresolved:
  "find_prop translations key = None \<Longrightarrow>
   translate h translations locale key \<sigma> = (Inr (Str []), \<sigma>)"
  by (simp add: translate_def property_get_def)

lemma translate_own_object:
  "own translations key = Some (Data (Ref a)) \<Longrightarrow>
   translate h translations locale key \<sigma> = property_get (h (Ref a)) locale \<sigma>"
  by (simp add: translate_def property_get_def find_prop_own member_read_def)

lemma translate_000_translate:
  "translate_000 h translations key language = translate h translations language key"
  by (rule ext) (simp add: translate_000_def translate_def)

lemma property_get_no_getter:
  "no_getter (find_prop obj k) \<Longrightarrow> \<exists>v. \<forall>\<sigma>. property_get obj k \<sigma> = (Inr v, \<sigma>)"
  by (auto simp add: no_getter_def property_get_def split: option.splits js_prop.splits)

text \<open>
  Without a getter on the way, the result is a value, the same in every program state,
  and the state stays as it is.
\<close>

lemma translate_no_getter:
  assumes "reads_no_getter h translations locale key"
  shows "\<exists>v. \<forall>\<sigma>. translate h translations locale key \<sigma> = (Inr v, \<sigma>)"
proof (cases "find_prop translations key")
  case None
  then show ?thesis by (simp add: translate_unresolved)
next
  case (Some p)
  show ?thesis
  proof (cases p)
    case (Data u)
    with Some have pg: "property_get translations key \<sigma> = (Inr u, \<sigma>)" for \<sigma>
      by (simp add: property_get_def)
    show ?thesis
    proof (cases "falsy u")
      case True
      with pg show ?thesis by (simp add: translate_falsy)
    next
      case False
      with assms Some Data have "no_getter (find_prop (h u) locale)"
        by (simp add: reads_no_getter_def)
      from property_get_no_getter [OF this] pg False show ?thesis
        by (simp add: translate_truthy)
    qed
  next
    case (Accessor g)
    with assms Some show ?thesis by (simp add: reads_no_getter_def)
  qed
qed

text \<open>Whatever \<open>translate\<close> raises, a getter raised.\<close>

lemma property_get_raises:
  "fst (property_get obj k \<sigma>) = Inl e \<Longrightarrow> getter_raises (find_prop obj k) \<sigma> e"
  by (auto simp add: property_get_def getter_raises_def split: option.splits js_prop.splits)

lemma translate_raises:
  assumes "fst (translate h translations locale key \<sigma>) = Inl e"
  shows "raised_by_getter h translations locale key \<sigma> e"
proof (cases "property_get translations key \<sigma>")
  case (Pair r \<sigma>')
  show ?thesis
  proof (cases r)
    case (Inl e')
    with Pair assms have "e' = e" by (simp add: translate_def)
    with Pair Inl have "fst (property_get translations key \<sigma>) = Inl e" by simp
    then have "getter_raises (find_prop translations key) \<sigma> e"
      by (rule property_get_raises)
    then show ?thesis by (simp add: raised_by_getter_def)
  next
    case (Inr v)
    with Pair have pg: "property_get translations key \<sigma> = (Inr v, \<sigma>')" by simp
    show ?thesis
    proof (cases "falsy v")
      case True
      with pg assms show ?thesis by (simp add: translate_falsy)
    next
      case False
      with pg assms have "fst (property_get (h v) locale \<sigma>') = Inl e"
        by (simp add: translate_truthy)
      then have "getter_raises (find_prop (h v) locale) \<sigma>' e"
        by (rule property_get_raises)
      with pg False show ?thesis by (simp add: raised_by_getter_def)
    qed
  qed
qed

subsection \<open>Evaluating the examples\<close>

lemmas js_eval =
  translate_def translate_000_def useTranslations_000_def property_get_def member_read_def
  example_host_def builtin_methods_def table_full_def table_partial_def table_getter_def
  object_literal_def function_object_def Function_prototype_def Object_prototype_def
  Object_constructor_def Function_constructor_def

section \<open>Facts about rendering\<close>

lemma useLocale_useContext: "useLocale c w env = useContext c w env"
  by (cases "useContext c w env") (simp add: useLocale_def)

lemma LocaleProvider_first:
  "LocaleProvider c pid None =
     \<lparr>component = c, hook_state = initialLocale c, hook_queue = [],
      memo_deps = initialLocale c,
      memo_value = \<lparr>ctx_locale = initialLocale c, ctx_setLocale = Dispatch pid\<rparr>\<rparr>"
  by (simp add: LocaleProvider_def useState_def useMemo_def)

text \<open>
  A later render: the state is the stored one with the pending updates applied, and
  the value seen by the subtree is the one for that state, whether the memo slot was
  reused or recomputed.
\<close>

lemma LocaleProvider_again:
  assumes "wf_provider pid inst"
  shows "LocaleProvider c pid (Some inst) =
     \<lparr>component = c,
      hook_state = foldl (\<lambda>s a. apply_action a s) (hook_state inst) (hook_queue inst),
      hook_queue = [],
      memo_deps = foldl (\<lambda>s a. apply_action a s) (hook_state inst) (hook_queue inst),
      memo_value =
        \<lparr>ctx_locale = foldl (\<lambda>s a. apply_action a s) (hook_state inst) (hook_queue inst),
         ctx_setLocale = Dispatch pid\<rparr>\<rparr>"
  using assms by (auto simp add: LocaleProvider_def useState_def useMemo_def wf_provider_def)

lemma component_LocaleProvider: "component (LocaleProvider c pid prev) = c"
  by (simp add: LocaleProvider_def split: prod.splits)

lemma wf_provider_first: "wf_provider pid (LocaleProvider c pid None)"
  by (simp add: LocaleProvider_first wf_provider_def)

lemma wf_provider_again:
  "wf_provider pid inst \<Longrightarrow> wf_provider pid (LocaleProvider c pid (Some inst))"
  by (simp add: LocaleProvider_again) (simp add: wf_provider_def)

lemma wf_provider_enqueue:
  "wf_provider pid inst \<Longrightarrow> wf_provider pid (inst\<lparr>hook_queue := q\<rparr>)"
  by (simp add: wf_provider_def)

subsection \<open>Every history leads to a well-formed world\<close>

lemma wf_world_empty: "wf_world Map.empty"
  by (simp add: wf_world_def)

lemma wf_world_mount: "wf_world w \<Longrightarrow> wf_world (mount c pid w)"
  by (auto simp add: wf_world_def mount_def wf_provider_first split: option.splits if_splits)

lemma wf_world_call_setter: "wf_world w \<Longrightarrow> wf_world (call_setter s a w)"
  by (auto simp add: wf_world_def call_setter_def wf_provider_enqueue
      split: setter.splits option.splits if_splits)

lemma wf_world_propagate: "wf_world w \<Longrightarrow> wf_world (propagate w)"
  by (auto simp add: wf_world_def propagate_def wf_provider_again split: option.splits)

lemma wf_world_step: "wf_world w \<Longrightarrow> wf_world (step w e)"
  by (cases e) (simp_all add: wf_world_mount wf_world_call_setter wf_world_propagate)

lemma wf_world_foldl: "wf_world w \<Longrightarrow> wf_world (foldl step w evs)"
  by (induction evs arbitrary: w) (simp_all add: wf_world_step)

lemma wf_world_run: "wf_world (run evs)"
  by (simp add: run_def wf_world_foldl wf_world_empty)

subsection \<open>Which Provider a reader sees\<close>

lemma nearest_Some:
  "nearest c w env = Some pid \<Longrightarrow>
     \<exists>inst. w pid = Some inst \<and> context_id (component inst) = context_id c \<and>
            useContext c w env = memo_value inst"
  by (induction env) (auto split: option.splits if_splits)

lemma nearest_None: "nearest c w env = None \<Longrightarrow> useContext c w env = LocaleContext c"
  by (induction env) (auto split: option.splits if_splits)

text \<open>
  The search looks at which component each instance is, and at nothing else of the
  instance.
\<close>

lemma nearest_cong:
  assumes "\<And>p. map_option component (w' p) = map_option component (w p)"
  shows "nearest c w' env = nearest c w env"
proof (induction env)
  case Nil
  show ?case by simp
next
  case (Cons p ps)
  from assms [of p] Cons show ?case
    by (cases "w p"; cases "w' p") auto
qed

lemma useContext_cong:
  assumes "\<And>p. map_option component (w' p) = map_option component (w p)"
    and "nearest c w env = Some pid"
    and "map_option memo_value (w' pid) = map_option memo_value (w pid)"
  shows "useContext c w' env = useContext c w env"
  using assms(2)
proof (induction env)
  case Nil
  then show ?case by simp
next
  case (Cons p ps)
  show ?case
  proof (cases "w p")
    case None
    with assms(1) [of p] have "w' p = None" by simp
    with None Cons show ?thesis by simp
  next
    case (Some inst)
    with assms(1) [of p] obtain inst'
      where inst': "w' p = Some inst'" "component inst' = component inst"
      by auto
    show ?thesis
    proof (cases "context_id (component inst) = context_id c")
      case True
      with Some Cons.prems have "pid = p" by simp
      with assms(3) Some inst' have "memo_value inst' = memo_value inst" by simp
      with True Some inst' show ?thesis by simp
    next
      case False
      with Some inst' Cons show ?thesis by simp
    qed
  qed
qed

lemma call_setter_component:
  "map_option component (call_setter s a w p) = map_option component (w p)"
  by (auto simp add: call_setter_def split: setter.splits option.splits)

lemma call_setter_other: "s \<noteq> Dispatch p \<Longrightarrow> call_setter s a w p = w p"
  by (auto simp add: call_setter_def split: setter.splits option.splits)

lemma nearest_call_setter: "nearest c (call_setter s a w) env = nearest c w env"
  by (rule nearest_cong) (rule call_setter_component)

lemma nearest_propagate: "nearest c (propagate w) env = nearest c w env"
  by (rule nearest_cong)
     (auto simp add: propagate_def component_LocaleProvider split: option.splits)

subsection \<open>Propagation cycles\<close>

text \<open>With nothing pending, another cycle changes nothing.\<close>

lemma propagate_idem: "wf_world w \<Longrightarrow> propagate (propagate w) = propagate w"
proof (rule ext)
  fix pid
  assume wf: "wf_world w"
  show "propagate (propagate w) pid = propagate w pid"
  proof (cases "w pid")
    case None
    then show ?thesis by (simp add: propagate_def)
  next
    case (Some inst)
    with wf have "wf_provider pid inst" by (simp add: wf_world_def)
    then have "wf_provider pid (LocaleProvider (component inst) pid (Some inst))"
      by (rule wf_provider_again)
    then show ?thesis using Some \<open>wf_provider pid inst\<close>
      by (simp add: propagate_def LocaleProvider_again component_LocaleProvider)
  qed
qed

lemma propagate_funpow: "wf_world w \<Longrightarrow> (propagate ^^ Suc n) w = propagate w"
  by (induction n) (simp_all add: propagate_idem)

text \<open>A cycle renders each instance from its own slots only.\<close>

lemma funpow_propagate_pointwise:
  "w1 p = w2 p \<Longrightarrow> (propagate ^^ n) w1 p = (propagate ^^ n) w2 p"
  by (induction n) (simp_all add: propagate_def)

lemma funpow_propagate_component:
  "map_option component ((propagate ^^ n) w p) = map_option component (w p)"
  by (induction n) (auto simp add: propagate_def component_LocaleProvider split: option.splits)

subsection \<open>Evaluating small histories\<close>

lemmas world_eval =
  run_def mount_def call_setter_def propagate_def LocaleProvider_def useState_def
  useMemo_def createTranslations_def useLocale_def wf_provider_def

section \<open>Lookup results\<close>

text \<open>
  C1. For every translation table, every key present in it and every locale \<open>L\<close> for
  which the key's inner mapping has an entry: while the current locale (what
  \<open>useLocale\<close> returns where \<open>useTranslations\<close> is called) is \<open>L\<close>, \<open>translate(key)\<close>
  returns exactly that entry, \<open>table[key][L]\<close>. Present means: the table has the key as
  an own data property that holds the inner mapping, and the inner mapping has \<open>L\<close> as
  an own data property that holds a string. Nothing else is asked of the table, the
  mapping or their prototypes, and the program state is left as it was.
\<close>

theorem translate_returns_entry:
  assumes "own translations key = Some (Data (Ref a))"
    and "own (h (Ref a)) L = Some (Data (Str s))"
    and "ctx_locale (useLocale c w env) = L"
  shows "useTranslations h c w env translations key \<sigma> = (Inr (Str s), \<sigma>)"
  using assms
  by (simp add: useTranslations_def translate_own_object property_get_def find_prop_own)

theorem translate_returns_entry_witness:
  "useTranslations example_host (createTranslations 0 ''fr'')
     (run [Mount (createTranslations 0 ''fr'') 1]) [1] table_full ''title'' ()
   = (Inr (Str ''Bonjour''), ())"
proof -
  let ?c = "createTranslations 0 ''fr''"
  let ?w = "run [Mount ?c 1]"
  have 1: "own (table_full :: unit js_object) ''title'' = Some (Data (Ref 100))"
    by (simp add: table_full_def object_literal_def)
  have 2: "own ((example_host :: unit host) (Ref 100)) ''fr'' = Some (Data (Str ''Bonjour''))"
    by (simp add: example_host_def object_literal_def)
  have 3: "ctx_locale (useLocale ?c ?w [1]) = ''fr''"
    by (simp add: world_eval)
  show ?thesis
    by (rule translate_returns_entry
          [of table_full "''title''" 100 example_host "''fr''" "''Bonjour''" ?c ?w "[1]" "()"])
       (rule 1, rule 2, rule 3)
qed

text \<open>
  C2, as stated: for every translation table and every key present in it whose inner
  mapping has no entry for the current locale \<open>L\<close>, \<open>translate(key)\<close> returns
  \<open>undefined\<close>. This fails: the table \<open>{title: {fr: "Bonjour", en: "Hello"}}\<close> has the key
  \<open>title\<close>, and its inner mapping has no entry \<open>toString\<close>; after
  \<open>setLocale("toString")\<close> and a propagation cycle, \<open>translate("title")\<close> is the function
  that the inner mapping inherits under that name.
\<close>

theorem translate_inner_miss_inherited:
  "own (table_partial :: unit js_object) ''title'' = Some (Data (Ref 101))
   \<and> own ((example_host :: unit host) (Ref 101)) ''toString'' = None
   \<and> ctx_locale (useLocale (createTranslations 0 ''fr'')
        (run [Mount (createTranslations 0 ''fr'') 1, Call (Dispatch 1) (Value ''toString''),
              Propagate]) [1]) = ''toString''
   \<and> useTranslations example_host (createTranslations 0 ''fr'')
        (run [Mount (createTranslations 0 ''fr'') 1, Call (Dispatch 1) (Value ''toString''),
              Propagate]) [1] table_partial ''title'' ()
      = (Inr (Ref 14), ())
   \<and> Inr (Ref 14) \<noteq> (Inr Undefined :: js_error + js_value)"
  by (simp add: useTranslations_def world_eval js_eval)

text \<open>
  C2, amended: for every translation table and every key present in it whose inner
  mapping has no property named by the current locale \<open>L\<close>, neither its own nor an
  inherited one, \<open>translate(key)\<close> returns \<open>undefined\<close>, not the empty string.
\<close>

theorem translate_inner_miss_undefined:
  assumes "own translations key = Some (Data (Ref a))"
    and "find_prop (h (Ref a)) L = None"
    and "ctx_locale (useLocale c w env) = L"
  shows "useTranslations h c w env translations key \<sigma> = (Inr Undefined, \<sigma>)
       \<and> fst (useTranslations h c w env translations key \<sigma>) \<noteq> Inr (Str [])"
  using assms
  by (simp add: useTranslations_def translate_own_object property_get_def)

theorem translate_inner_miss_undefined_witness:
  "useTranslations example_host (createTranslations 0 ''fr'')
     (run [Mount (createTranslations 0 ''fr'') 1, Call (Dispatch 1) (Value ''es''), Propagate])
     [1] table_partial ''title'' () = (Inr Undefined, ())
   \<and> fst (useTranslations example_host (createTranslations 0 ''fr'')
     (run [Mount (createTranslations 0 ''fr'') 1, Call (Dispatch 1) (Value ''es''), Propagate])
     [1] table_partial ''title'' ()) \<noteq> Inr (Str [])"
proof -
  let ?c = "createTranslations 0 ''fr''"
  let ?w = "run [Mount ?c 1, Call (Dispatch 1) (Value ''es''), Propagate]"
  have 1: "own (table_partial :: unit js_object) ''title'' = Some (Data (Ref 101))"
    by (simp add: table_partial_def object_literal_def)
  have 2: "find_prop ((example_host :: unit host) (Ref 101)) ''es'' = None"
    by (simp add: example_host_def object_literal_def Object_prototype_def)
  have 3: "ctx_locale (useLocale ?c ?w [1]) = ''es''"
    by (simp add: world_eval)
  show ?thesis
    by (rule translate_inner_miss_undefined
          [of table_partial "''title''" 101 example_host "''es''" ?c ?w "[1]" "()"])
       (rule 1, rule 2, rule 3)
qed

text \<open>
  C3, as stated: for every translation table and every key, the \<open>translate\<close> that
  \<open>useTranslations\<close> returns gives back a string. This fails: with the table
  \<open>{title: {fr: "Bonjour", en: "Hello"}}\<close>, after \<open>setLocale("es")\<close> and a propagation
  cycle, \<open>translate("title")\<close> is \<open>undefined\<close>, which is no string.
\<close>

theorem translate_not_always_string:
  "\<not> (\<exists>s. fst (useTranslations example_host (createTranslations 0 ''fr'')
            (run [Mount (createTranslations 0 ''fr'') 1, Call (Dispatch 1) (Value ''es''),
                  Propagate])
            [1] table_partial ''title'' ())
          = Inr (Str s))"
  by (simp add: useTranslations_def world_eval js_eval)

text \<open>
  C3, amended: for every translation table and every key that names no property of
  the table, or that is an entry of the table whose inner mapping has a string entry
  for the current locale (as every entry of a table of the declared type
  \<open>Record<string, Record<Locale, string>>\<close> has), the \<open>translate\<close> that
  \<open>useTranslations\<close> returns gives back a string.
\<close>

theorem translate_string_on_entries:
  assumes "ctx_locale (useLocale c w env) = L"
    and "find_prop translations key = None
       \<or> (\<exists>a s. own translations key = Some (Data (Ref a))
                \<and> own (h (Ref a)) L = Some (Data (Str s)))"
  shows "\<exists>s. fst (useTranslations h c w env translations key \<sigma>) = Inr (Str s)"
  using assms
  by (auto simp add: useTranslations_def translate_unresolved translate_own_object
      property_get_def find_prop_own)

theorem translate_string_on_entries_witness:
  "(\<exists>s. fst (useTranslations example_host (createTranslations 0 ''fr'')
           (run [Mount (createTranslations 0 ''fr'') 1]) [1] table_full ''title'' ())
         = Inr (Str s))
   \<and> (\<exists>s. fst (useTranslations example_host (createTranslations 0 ''fr'')
           (run [Mount (createTranslations 0 ''fr'') 1]) [1] table_full ''missing'' ())
         = Inr (Str s))"
proof -
  let ?c = "createTranslations 0 ''fr''"
  let ?w = "run [Mount ?c 1]"
  have cur: "ctx_locale (useLocale ?c ?w [1]) = ''fr''"
    by (simp add: world_eval)
  have "own (table_full :: unit js_object) ''title'' = Some (Data (Ref 100))
      \<and> own ((example_host :: unit host) (Ref 100)) ''fr'' = Some (Data (Str ''Bonjour''))"
    by (simp add: table_full_def object_literal_def example_host_def)
  then have entry: "find_prop (table_full :: unit js_object) ''title'' = None
      \<or> (\<exists>a s. own (table_full :: unit js_object) ''title'' = Some (Data (Ref a))
               \<and> own ((example_host :: unit host) (Ref a)) ''fr'' = Some (Data (Str s)))"
    by blast
  have "find_prop (table_full :: unit js_object) ''missing'' = None"
    by (simp add: table_full_def object_literal_def Object_prototype_def)
  then have nowhere: "find_prop (table_full :: unit js_object) ''missing'' = None
      \<or> (\<exists>a s. own (table_full :: unit js_object) ''missing'' = Some (Data (Ref a))
               \<and> own ((example_host :: unit host) (Ref a)) ''fr'' = Some (Data (Str s)))"
    by blast
  from translate_string_on_entries [OF cur entry, where \<sigma> = "()"]
       translate_string_on_entries [OF cur nowhere, where \<sigma> = "()"]
  show ?thesis by blast
qed

text \<open>
  C4, as stated: for every translation table and every key absent from it,
  \<open>translate(key)\<close> returns the empty string. This fails: the table
  \<open>{title: {fr: "Bonjour", en: "Hello", es: "Hola"}}\<close> has no entry \<open>toString\<close>, but it
  inherits a function under that name; the guard lets the function pass, the function
  has no property \<open>fr\<close>, and \<open>translate("toString")\<close> is \<open>undefined\<close>.
\<close>

theorem translate_absent_key_inherited:
  "own (table_full :: unit js_object) ''toString'' = None
   \<and> useTranslations example_host (createTranslations 0 ''fr'')
        (run [Mount (createTranslations 0 ''fr'') 1]) [1] table_full ''toString'' ()
      = (Inr Undefined, ())
   \<and> Inr Undefined \<noteq> (Inr (Str []) :: js_error + js_value)"
  by (simp add: useTranslations_def world_eval js_eval)

text \<open>
  C4, amended: for every translation table and every key that names no property of it,
  neither its own nor an inherited one, \<open>translate(key)\<close> returns the empty string,
  whatever the current locale is; nothing is raised, and the program state is left as
  it was.
\<close>

theorem translate_absent_key_empty:
  assumes "find_prop translations key = None"
  shows "useTranslations h c w env translations key \<sigma> = (Inr (Str []), \<sigma>)"
  using assms by (simp add: useTranslations_def translate_unresolved)

theorem translate_absent_key_empty_witness:
  "useTranslations example_host (createTranslations 0 ''fr'')
     (run [Mount (createTranslations 0 ''fr'') 1]) [1] table_full ''missing'' ()
   = (Inr (Str []), ())"
proof -
  have 1: "find_prop (table_full :: unit js_object) ''missing'' = None"
    by (simp add: table_full_def object_literal_def Object_prototype_def)
  show ?thesis
    by (rule translate_absent_key_empty [OF 1])
qed

section \<open>The accessor and the setter\<close>

text \<open>
  C5. Where no Provider of the factory's context encloses the caller, \<open>useLocale\<close>
  returns the factory's \<open>initialLocale\<close> together with the no-op setter. Calling that
  setter, with any argument, leaves every mounted Provider as it was, so every later
  \<open>useLocale\<close>, of any factory, anywhere, after any number of propagation cycles,
  returns what it would have returned without the call.
\<close>

theorem useLocale_outside_provider:
  assumes "nearest c w env = None"
  shows "useLocale c w env = \<lparr>ctx_locale = initialLocale c, ctx_setLocale = Noop\<rparr>
       \<and> call_setter (ctx_setLocale (useLocale c w env)) a w = w
       \<and> (\<forall>c' env' n.
             useLocale c' ((propagate ^^ n) (call_setter (ctx_setLocale (useLocale c w env)) a w)) env'
           = useLocale c' ((propagate ^^ n) w) env')"
proof -
  have 1: "useLocale c w env = \<lparr>ctx_locale = initialLocale c, ctx_setLocale = Noop\<rparr>"
    using assms by (simp add: useLocale_useContext nearest_None LocaleContext_def)
  then have 2: "call_setter (ctx_setLocale (useLocale c w env)) a w = w"
    by (simp add: call_setter_def)
  show ?thesis using 1 2 by simp
qed

theorem useLocale_outside_provider_witness:
  "nearest (createTranslations 0 ''fr'') (run [Mount (createTranslations 1 ''en'') 1]) [1] = None
   \<and> useLocale (createTranslations 0 ''fr'') (run [Mount (createTranslations 1 ''en'') 1]) [1]
       = \<lparr>ctx_locale = ''fr'', ctx_setLocale = Noop\<rparr>
   \<and> call_setter
         (ctx_setLocale
            (useLocale (createTranslations 0 ''fr'') (run [Mount (createTranslations 1 ''en'') 1]) [1]))
         (Value ''es'') (run [Mount (createTranslations 1 ''en'') 1])
       = run [Mount (createTranslations 1 ''en'') 1]"
proof -
  let ?c = "createTranslations 0 ''fr''"
  let ?w = "run [Mount (createTranslations 1 ''en'') 1]"
  have near: "nearest ?c ?w [1] = None"
    by (simp add: world_eval)
  have init: "initialLocale ?c = ''fr''"
    by (simp add: createTranslations_def)
  from useLocale_outside_provider [OF near, of "Value ''es''"]
  have 1: "useLocale ?c ?w [1] = \<lparr>ctx_locale = initialLocale ?c, ctx_setLocale = Noop\<rparr>"
    and 2: "call_setter (ctx_setLocale (useLocale ?c ?w [1])) (Value ''es'') ?w = ?w"
    by blast+
  from near 1 [unfolded init] 2 show ?thesis by blast
qed

text \<open>
  C6. In any world a history can lead to, let a caller's nearest Provider be instance
  \<open>pid\<close>, whatever its current locale \<open>L1\<close> and whatever is already pending there. If
  the caller passes a locale \<open>L2\<close> (any string, also \<open>L1\<close> itself) to the \<open>setLocale\<close>
  that \<open>useLocale\<close> gave it, then after the next propagation cycle, and after any
  number of further cycles, the caller's \<open>useLocale().locale\<close> is \<open>L2\<close>, and the
  Provider's state cell holds exactly \<open>L2\<close>.
\<close>

theorem setLocale_then_read:
  assumes "wf_world w"
    and "nearest c w env = Some pid"
  shows "ctx_locale (useLocale c
            ((propagate ^^ Suc n) (call_setter (ctx_setLocale (useLocale c w env)) (Value L2) w))
            env) = L2
       \<and> map_option hook_state
            (((propagate ^^ Suc n) (call_setter (ctx_setLocale (useLocale c w env)) (Value L2) w)) pid)
          = Some L2"
proof -
  from nearest_Some [OF assms(2)] obtain inst where
    inst: "w pid = Some inst" "useContext c w env = memo_value inst"
    by blast
  from assms(1) inst(1) have wfi: "wf_provider pid inst"
    by (simp add: wf_world_def)
  then have setter: "ctx_setLocale (useLocale c w env) = Dispatch pid"
    by (simp add: useLocale_useContext inst(2) wf_provider_def)
  define inst1 where "inst1 = inst\<lparr>hook_queue := hook_queue inst @ [Value L2]\<rparr>"
  define w1 where "w1 = call_setter (ctx_setLocale (useLocale c w env)) (Value L2) w"
  have w1: "w1 pid = Some inst1"
    by (simp add: w1_def inst1_def setter call_setter_def inst(1))
  have wf1: "wf_world w1"
    unfolding w1_def using assms(1) by (rule wf_world_call_setter)
  then have wfi1: "wf_provider pid inst1"
    using w1 by (simp add: wf_world_def)
  define w2 where "w2 = (propagate ^^ Suc n) w1"
  have w2_eq: "w2 = propagate w1"
    unfolding w2_def using wf1 by (rule propagate_funpow)
  have st: "foldl (\<lambda>s a. apply_action a s) (hook_state inst1) (hook_queue inst1) = L2"
    by (simp add: inst1_def)
  have w2: "w2 pid = Some (LocaleProvider (component inst1) pid (Some inst1))"
    by (simp add: w2_eq propagate_def w1)
  have near2: "nearest c w2 env = Some pid"
    by (simp add: w2_eq w1_def nearest_propagate nearest_call_setter assms(2))
  from nearest_Some [OF near2] w2
  have "useContext c w2 env = memo_value (LocaleProvider (component inst1) pid (Some inst1))"
    by auto
  then have "ctx_locale (useLocale c w2 env) = L2"
    by (simp add: useLocale_useContext LocaleProvider_again [OF wfi1] st)
  moreover have "map_option hook_state (w2 pid) = Some L2"
    by (simp add: w2 LocaleProvider_again [OF wfi1] st)
  ultimately show ?thesis
    by (simp add: w2_def w1_def)
qed

theorem setLocale_then_read_witness:
  "ctx_locale (useLocale (createTranslations 0 ''fr'')
      ((propagate ^^ Suc 0)
         (call_setter
            (ctx_setLocale
               (useLocale (createTranslations 0 ''fr'') (run [Mount (createTranslations 0 ''fr'') 1]) [1]))
            (Value ''en'') (run [Mount (createTranslations 0 ''fr'') 1])))
      [1]) = ''en''
   \<and> ctx_locale (useLocale (createTranslations 0 ''fr'')
      ((propagate ^^ Suc 0)
         (call_setter
            (ctx_setLocale
               (useLocale (createTranslations 0 ''fr'') (run [Mount (createTranslations 0 ''fr'') 1]) [1]))
            (Value ''fr'') (run [Mount (createTranslations 0 ''fr'') 1])))
      [1]) = ''fr''"
proof -
  let ?c = "createTranslations 0 ''fr''"
  let ?w = "run [Mount ?c 1]"
  have wf: "wf_world ?w"
    by (rule wf_world_run)
  have near: "nearest ?c ?w [1] = Some 1"
    by (simp add: world_eval)
  from setLocale_then_read [OF wf near, of 0 "''en''"]
       setLocale_then_read [OF wf near, of 0 "''fr''"]
  show ?thesis by blast
qed

text \<open>
  C7. In any world a history can lead to, let the nearest Providers of two callers be
  two different instances \<open>pidA\<close> and \<open>pidB\<close> (of the same factory or of two
  factories with different initial locales). Calling the \<open>setLocale\<close> that the caller
  under \<open>pidA\<close> got from \<open>useLocale\<close>, with any argument, leaves the hook slots of
  \<open>pidB\<close> as they were, and after any number of propagation cycles the caller under
  \<open>pidB\<close> reads from \<open>useLocale\<close> what it would have read without the call.
\<close>

theorem setLocale_stays_in_subtree:
  assumes "wf_world w"
    and "nearest cA w envA = Some pidA"
    and "nearest cB w envB = Some pidB"
    and "pidA \<noteq> pidB"
  shows "call_setter (ctx_setLocale (useLocale cA w envA)) a w pidB = w pidB
       \<and> (\<forall>n. useLocale cB
                ((propagate ^^ n) (call_setter (ctx_setLocale (useLocale cA w envA)) a w)) envB
              = useLocale cB ((propagate ^^ n) w) envB)"
proof -
  from nearest_Some [OF assms(2)] obtain inst where
    inst: "w pidA = Some inst" "useContext cA w envA = memo_value inst"
    by blast
  from assms(1) inst(1) have "wf_provider pidA inst"
    by (simp add: wf_world_def)
  then have setter: "ctx_setLocale (useLocale cA w envA) = Dispatch pidA"
    by (simp add: useLocale_useContext inst(2) wf_provider_def)
  define w1 where "w1 = call_setter (ctx_setLocale (useLocale cA w envA)) a w"
  have same: "w1 pidB = w pidB"
    unfolding w1_def setter using assms(4) by (simp add: call_setter_other)
  have "useLocale cB ((propagate ^^ n) w1) envB = useLocale cB ((propagate ^^ n) w) envB" for n
  proof -
    have comp: "map_option component ((propagate ^^ n) w1 p)
        = map_option component ((propagate ^^ n) w p)" for p
      by (simp add: funpow_propagate_component w1_def call_setter_component)
    have near: "nearest cB ((propagate ^^ n) w) envB = Some pidB"
      using assms(3) nearest_cong [of "(propagate ^^ n) w" w cB envB]
      by (simp add: funpow_propagate_component)
    have at: "(propagate ^^ n) w1 pidB = (propagate ^^ n) w pidB"
      using same by (rule funpow_propagate_pointwise)
    have "useContext cB ((propagate ^^ n) w1) envB = useContext cB ((propagate ^^ n) w) envB"
      by (rule useContext_cong [OF comp near]) (simp add: at)
    then show ?thesis by (simp add: useLocale_useContext)
  qed
  with same show ?thesis by (simp add: w1_def)
qed

theorem setLocale_stays_in_subtree_witness:
  "useLocale (createTranslations 1 ''en'')
     ((propagate ^^ 1)
        (call_setter
           (ctx_setLocale
              (useLocale (createTranslations 0 ''fr'')
                 (run [Mount (createTranslations 0 ''fr'') 1, Mount (createTranslations 1 ''en'') 2])
                 [1]))
           (Value ''es'')
           (run [Mount (createTranslations 0 ''fr'') 1, Mount (createTranslations 1 ''en'') 2])))
     [2]
   = useLocale (createTranslations 1 ''en'')
       ((propagate ^^ 1)
          (run [Mount (createTranslations 0 ''fr'') 1, Mount (createTranslations 1 ''en'') 2]))
       [2]
   \<and> ctx_locale (useLocale (createTranslations 1 ''en'')
       ((propagate ^^ 1)
          (run [Mount (createTranslations 0 ''fr'') 1, Mount (createTranslations 1 ''en'') 2]))
       [2]) = ''en''"
proof -
  let ?cA = "createTranslations 0 ''fr''"
  let ?cB = "createTranslations 1 ''en''"
  let ?w = "run [Mount ?cA 1, Mount ?cB 2]"
  have wf: "wf_world ?w"
    by (rule wf_world_run)
  have nearA: "nearest ?cA ?w [1] = Some 1"
    by (simp add: world_eval)
  have nearB: "nearest ?cB ?w [2] = Some 2"
    by (simp add: world_eval)
  have ne: "(1::nat) \<noteq> 2"
    by simp
  have en: "ctx_locale (useLocale ?cB ((propagate ^^ 1) ?w) [2]) = ''en''"
    by (simp add: world_eval)
  from setLocale_stays_in_subtree [OF wf nearA nearB ne, of "Value ''es''"] en
  show ?thesis by blast
qed

section \<open>Exceptions, the two variants, purity\<close>

text \<open>
  C8, as stated: no operation of the library raises, for every translation table, key
  and locale. This fails: on the table \<open>{title: {fr: "Bonjour", en: "Hello", es: "Hola"}}\<close>
  the key \<open>toString\<close> resolves to an inherited function, which passes the guard; after
  \<open>setLocale("caller")\<close> and a propagation cycle, \<open>translate("toString")\<close> reads
  \<open>caller\<close> on that function, which is the accessor of \<open>Function.prototype\<close> whose
  getter raises a \<open>TypeError\<close>.
\<close>

theorem translate_raises_on_restricted_accessor:
  "fst (useTranslations example_host (createTranslations 0 ''fr'')
          (run [Mount (createTranslations 0 ''fr'') 1, Call (Dispatch 1) (Value ''caller''),
                Propagate]) [1] table_full ''toString'' ())
   = Inl (Thrown (Ref 9))"
  by (simp add: useTranslations_def world_eval js_eval)

text \<open>
  C8, amended: no operation of the library raises on its own account.
  \<open>createTranslations\<close> returns its closures. Called while a component renders,
  \<open>LocaleProvider\<close>, \<open>useLocale\<close> and \<open>useTranslations\<close> return a value, wherever
  the component stands. For every translation table, key and locale, in every program
  state, \<open>translate\<close> in either variant returns a value whenever neither of its two
  property reads reaches a getter, and whatever it raises otherwise is what such a
  getter raised; so the guard keeps it from ever reading a property of \<open>undefined\<close> or
  \<open>null\<close>.
\<close>

theorem library_raises_only_from_getters:
  "(\<exists>cl. createTranslations fresh initial = cl)
   \<and> (\<exists>inst. call_LocaleProvider c pid prev (Rendering env) = Inr inst)
   \<and> (\<exists>v. call_useLocale c w (Rendering env) = Inr v)
   \<and> (\<exists>t. call_useTranslations h c w (Rendering env) translations = Inr t)
   \<and> (reads_no_getter h translations (ctx_locale (useLocale c w env)) key \<longrightarrow>
        (\<exists>v. useTranslations h c w env translations key \<sigma> = (Inr v, \<sigma>)))
   \<and> (reads_no_getter h translations language key \<longrightarrow>
        (\<exists>v. useTranslations_000 h translations key language \<sigma> = (Inr v, \<sigma>)))
   \<and> (fst (useTranslations h c w env translations key \<sigma>) = Inl e \<longrightarrow>
        raised_by_getter h translations (ctx_locale (useLocale c w env)) key \<sigma> e)
   \<and> (fst (useTranslations_000 h translations key language \<sigma>) = Inl e \<longrightarrow>
        raised_by_getter h translations language key \<sigma> e)"
proof -
  have "\<exists>v. translate h translations l key \<sigma> = (Inr v, \<sigma>)"
    if "reads_no_getter h translations l key" for l
    using translate_no_getter [OF that] by blast
  then show ?thesis
    by (simp add: call_LocaleProvider_def call_useLocale_def call_useTranslations_def
        during_render_def useTranslations_def useTranslations_000_def
        translate_000_translate translate_raises)
qed

theorem library_raises_only_from_getters_witness:
  "reads_no_getter (example_host :: unit host) table_partial ''es'' ''title''
   \<and> (\<exists>v. useTranslations example_host (createTranslations 0 ''fr'')
         (run [Mount (createTranslations 0 ''fr'') 1, Call (Dispatch 1) (Value ''es''),
               Propagate]) [1] table_partial ''title'' () = (Inr v, ()))
   \<and> (\<exists>v. call_useLocale (createTranslations 0 ''fr'')
         (run [Mount (createTranslations 0 ''fr'') 1, Call (Dispatch 1) (Value ''es''),
               Propagate]) (Rendering [1]) = Inr v)
   \<and> fst (useTranslations_000 example_host table_full ''toString'' ''arguments'' ())
       = Inl (Thrown (Ref 9))
   \<and> raised_by_getter (example_host :: unit host) table_full ''arguments'' ''toString'' ()
       (Thrown (Ref 9))"
proof -
  let ?c = "createTranslations 0 ''fr''"
  let ?w = "run [Mount ?c 1, Call (Dispatch 1) (Value ''es''), Propagate]"
  have cur: "ctx_locale (useLocale ?c ?w [1]) = ''es''"
    by (simp add: world_eval)
  have ok: "reads_no_getter (example_host :: unit host) table_partial ''es'' ''title''"
    by (simp add: reads_no_getter_def no_getter_def js_eval)
  have raised: "fst (useTranslations_000 example_host table_full ''toString'' ''arguments'' ())
      = Inl (Thrown (Ref 9))"
    by (simp add: js_eval)
  from library_raises_only_from_getters
         [of 0 "''fr''" ?c 1 None "[1]" ?w "example_host :: unit host" table_partial
             "''title''" "()"]
       ok cur
  have 1: "\<exists>v. useTranslations example_host ?c ?w [1] table_partial ''title'' () = (Inr v, ())"
    and 2: "\<exists>v. call_useLocale ?c ?w (Rendering [1]) = Inr v"
    by auto
  from library_raises_only_from_getters
         [where h = "example_host :: unit host" and language = "''arguments''"
            and key = "''toString''" and \<sigma> = "()" and e = "Thrown (Ref 9)"]
       raised
  have 3: "raised_by_getter (example_host :: unit host) table_full ''arguments'' ''toString'' ()
      (Thrown (Ref 9))"
    by blast
  from ok 1 2 raised 3 show ?thesis by blast
qed

text \<open>
  C9. The two variants of the binder agree: for every table, key and locale \<open>L\<close>, the
  two-argument \<open>translate(key, L)\<close> returns what the one-argument \<open>translate(key)\<close>
  returns while the current locale is \<open>L\<close>, in every program state, also where they
  raise, and they leave the same program state behind.
\<close>

theorem variants_agree:
  assumes "ctx_locale (useLocale c w env) = L"
  shows "useTranslations_000 h translations key L \<sigma>
       = useTranslations h c w env translations key \<sigma>"
  using assms
  by (simp add: useTranslations_000_def translate_000_def useTranslations_def translate_def)

theorem variants_agree_witness:
  "useTranslations_000 example_host table_full ''title'' ''fr'' ()
   = useTranslations example_host (createTranslations 0 ''fr'')
       (run [Mount (createTranslations 0 ''fr'') 1]) [1] table_full ''title'' ()
   \<and> useTranslations_000 example_host table_full ''title'' ''fr'' ()
       = (Inr (Str ''Bonjour''), ())"
proof -
  let ?c = "createTranslations 0 ''fr''"
  let ?w = "run [Mount ?c 1]"
  have cur: "ctx_locale (useLocale ?c ?w [1]) = ''fr''"
    by (simp add: world_eval)
  have val: "useTranslations_000 example_host table_full ''title'' ''fr'' ()
      = (Inr (Str ''Bonjour''), ())"
    by (simp add: js_eval)
  from variants_agree [OF cur, of example_host table_full "''title''" "()"] val
  show ?thesis by blast
qed

text \<open>
  C10, as stated: for every translation table, key and current locale, two evaluations
  of \<open>translate\<close> return identical results and neither has a side effect. This fails on
  a table whose entry is a getter: \<open>translations[key]\<close> runs the getter, which is host
  code. With the counting getter of \<open>table_getter\<close> and the locale \<open>fr\<close>, the first
  evaluation returns \<open>"Bonjour"\<close> and changes the program state, and the second
  evaluation, in the state the first one left, returns \<open>"Salut"\<close>.
\<close>

theorem translate_runs_getters:
  "useTranslations example_host (createTranslations 0 ''fr'')
     (run [Mount (createTranslations 0 ''fr'') 1]) [1] table_getter ''title'' 0
   = (Inr (Str ''Bonjour''), 1)
   \<and> useTranslations example_host (createTranslations 0 ''fr'')
       (run [Mount (createTranslations 0 ''fr'') 1]) [1] table_getter ''title'' 1
     = (Inr (Str ''Salut''), 2)"
  by (simp add: useTranslations_def world_eval js_eval)

text \<open>
  C10, amended: for every translation table, key and current locale for which neither
  of the two property reads of \<open>translate\<close> reaches a getter, \<open>translate\<close> is
  deterministic and free of side effects: its result is the same in every program
  state and wherever it is called (two calls that agree on table, key and current
  locale return the same, whatever else differs), and a call leaves the program state,
  which is all that host code can read and write, as it was.
\<close>

theorem translate_pure:
  assumes "reads_no_getter h translations L key"
    and "ctx_locale (useLocale c w env) = L"
    and "ctx_locale (useLocale c' w' env') = L"
  shows "snd (useTranslations h c w env translations key \<sigma>) = \<sigma>
       \<and> fst (useTranslations h c w env translations key \<sigma>)
           = fst (useTranslations h c' w' env' translations key \<sigma>')"
proof -
  from translate_no_getter [OF assms(1)] obtain v
    where "translate h translations L key s = (Inr v, s)" for s
    by blast
  with assms(2,3) show ?thesis
    by (simp add: useTranslations_def)
qed

theorem translate_pure_witness:
  "snd (useTranslations example_host (createTranslations 0 ''fr'')
          (run [Mount (createTranslations 0 ''fr'') 1]) [1] table_partial ''title'' (0::nat)) = 0
   \<and> fst (useTranslations example_host (createTranslations 0 ''fr'')
          (run [Mount (createTranslations 0 ''fr'') 1]) [1] table_partial ''title'' (0::nat))
     = fst (useTranslations example_host (createTranslations 7 ''fr'') Map.empty []
          table_partial ''title'' (5::nat))"
proof -
  let ?c = "createTranslations 0 ''fr''"
  let ?c' = "createTranslations 7 ''fr''"
  let ?w = "run [Mount ?c 1]"
  have ok: "reads_no_getter (example_host :: nat host) table_partial ''fr'' ''title''"
    by (simp add: reads_no_getter_def no_getter_def js_eval)
  have cur: "ctx_locale (useLocale ?c ?w [1]) = ''fr''"
    by (simp add: world_eval)
  have cur': "ctx_locale (useLocale ?c' Map.empty []) = ''fr''"
    by (simp add: world_eval LocaleContext_def)
  show ?thesis
    by (rule translate_pure [OF ok cur cur'])
qed

end
